theory Spec2Isabelle
  imports Complex_Main "HOL-Library.AList" "HOL-Library.Sublist"
begin

section \<open>Strings\<close>

text \<open>
  JavaScript strings are modelled as \<open>string\<close>.  \<open>toLowerCase\<close> maps the ASCII
  capital letters to their small counterparts and leaves every other character alone;
  blob metadata names and the literal \<open>success\<close> are ASCII.
\<close>

definition toLowerChar :: "char \<Rightarrow> char" where
  "toLowerChar c =
     (case map_of (zip ''ABCDEFGHIJKLMNOPQRSTUVWXYZ'' ''abcdefghijklmnopqrstuvwxyz'') c of
        None \<Rightarrow> c
      | Some l \<Rightarrow> l)"

definition toLowerCase :: "string \<Rightarrow> string" where
  "toLowerCase s = map toLowerChar s"

text \<open>
  \<open>String.prototype.replace\<close> with a string pattern: only the first occurrence of the
  pattern is replaced, wherever it stands in the string.
\<close>

fun replace :: "string \<Rightarrow> string \<Rightarrow> string \<Rightarrow> string" where
  "replace pat rep [] = (if pat = [] then rep else [])"
| "replace pat rep (c # cs) =
     (if prefix pat (c # cs) then rep @ drop (length pat) (c # cs)
      else c # replace pat rep cs)"

text \<open>\<open>String.prototype.includes\<close>: the pattern occurs somewhere in the string.\<close>

fun includes_str :: "string \<Rightarrow> string \<Rightarrow> bool" where
  "includes_str pat [] = (pat = [])"
| "includes_str pat (c # cs) = (prefix pat (c # cs) \<or> includes_str pat cs)"

text \<open>
  \<open>String.prototype.split\<close> with a one-character separator.  The result is never
  empty: the empty string splits into one empty segment.
\<close>

fun split :: "char \<Rightarrow> string \<Rightarrow> string list" where
  "split sep [] = [[]]"
| "split sep (c # cs) =
     (if c = sep then [] # split sep cs
      else (case split sep cs of [] \<Rightarrow> [[c]] | w # ws \<Rightarrow> (c # w) # ws))"

section \<open>Values and objects\<close>

text \<open>
  A JavaScript object with string keys is the association list of its own properties,
  in the order in which \<open>for ... in\<close> visits them.  Reading a property is \<open>map_of\<close>
  (\<open>None\<close> is \<open>undefined\<close>); the code reads own keys and fixed names that
  \<open>Object.prototype\<close> does not have.  \<open>delete\<close> is \<open>AList.delete\<close>.
\<close>

datatype jsval = Undefined | Str string | Num int

fun truthy :: "jsval \<Rightarrow> bool" where
  "truthy Undefined = False"
| "truthy (Str s) = (s \<noteq> [])"
| "truthy (Num n) = (n \<noteq> 0)"

definition getProp :: "(string \<times> jsval) list \<Rightarrow> string \<Rightarrow> jsval" where
  "getProp obj k = (case map_of obj k of None \<Rightarrow> Undefined | Some v \<Rightarrow> v)"

text \<open>Blob metadata has string values; reading a key gives a string or \<open>undefined\<close>.\<close>

definition getMeta :: "(string \<times> string) list \<Rightarrow> string \<Rightarrow> jsval" where
  "getMeta obj k = (case map_of obj k of None \<Rightarrow> Undefined | Some v \<Rightarrow> Str v)"

text \<open>
  The assignment \<open>obj[k] = v\<close> of a string, a number or \<open>undefined\<close> to an object
  made by an object literal: the value is replaced in place, a new key goes to the end.
  For the key \<open>__proto__\<close> the assignment reaches the setter of \<open>Object.prototype\<close>,
  which ignores a value that is not an object: nothing is stored.
\<close>

definition setProp :: "string \<Rightarrow> 'v \<Rightarrow> (string \<times> 'v) list \<Rightarrow> (string \<times> 'v) list" where
  "setProp k v obj = (if k = ''__proto__'' then obj else AList.update k v obj)"

text \<open>
  The call \<open>obj.hasOwnProperty(k)\<close>.  The method is found on the object itself first:
  once the object has an own property named \<open>hasOwnProperty\<close>, whose value here is
  never a function, the call throws a \<open>TypeError\<close> (\<open>Inl\<close>).
\<close>

definition hasOwnProperty :: "(string \<times> 'v) list \<Rightarrow> string \<Rightarrow> string + bool" where
  "hasOwnProperty obj k =
     (if map_of obj ''hasOwnProperty'' \<noteq> None
      then Inl ''TypeError: hasOwnProperty is not a function''
      else Inr (map_of obj k \<noteq> None))"

record blobMetadataResult =
  name :: string
  metadata :: "(string \<times> string) list"

section \<open>Constants\<close>

text \<open>
  \<open>isDebugEnabled\<close> is \<open>false\<close> and is never set to anything else, so the logging
  guarded by it never runs and is left out of the model.  The source declares
  \<open>TASK_ID_METADATA_PROPERTY\<close> and never reads it.
\<close>

definition TASK_ID_METADATA_PROPERTY :: string where
  "TASK_ID_METADATA_PROPERTY = ''x-rdp-taskid''"

definition RDP_ESCAPING_PREFIX :: string where
  "RDP_ESCAPING_PREFIX = ''x_rdp_''"

definition RDP_PREFIX :: string where
  "RDP_PREFIX = ''x-rdp-''"

section \<open>getBlobMetadata\<close>

definition normalizeKey :: "string \<Rightarrow> string" where
  "normalizeKey metadataKey =
     toLowerCase (replace RDP_ESCAPING_PREFIX RDP_PREFIX metadataKey)"

definition getBlobMetadata :: "blobMetadataResult \<Rightarrow> (string \<times> string) list" where
  "getBlobMetadata blobMetadataResult =
     foldl (\<lambda>blobMetadata (metadataKey, metadataValue).
              setProp (normalizeKey metadataKey) metadataValue blobMetadata)
       [] (metadata blobMetadataResult)"


section \<open>Effects\<close>

record httpOptions =
  protocol :: string
  host :: jsval
  port :: jsval
  path :: string
  requestMethod :: string
  requestHeaders :: "(string \<times> jsval) list"

text \<open>
  The descriptor: \<open>taskId\<close> is \<open>clientAttributes.taskId.values[0].value\<close> (the entry's
  locale and source are the literals \<open>en-US\<close> and \<open>internal\<close>), \<open>objectId\<close>,
  \<open>objectType\<close> and \<open>properties\<close> are \<open>binaryStreamObject.id\<close>, \<open>.type\<close> and
  \<open>.properties\<close>.
\<close>

record binaryStreamObject =
  taskId :: string
  objectId :: string
  objectType :: string
  properties :: "(string \<times> jsval) list"

text \<open>
  What a handler does to the outside world, in the order in which it happens: a run is
  a list of actions.  Log entries carry the message text only.  \<open>Done None\<close> is
  \<open>context.done()\<close>, \<open>Done (Some e)\<close> is \<open>context.done(e)\<close>; \<open>GetBlobMetadata\<close> is the
  request to the storage service with the credentials, the container and the blob
  name; \<open>HttpRequest\<close> is the request to the API server with its options and the
  descriptor that is its body; \<open>Uncaught\<close> is an exception that nothing catches.
\<close>

datatype action =
    Log string
  | LogError string
  | Done "string option"
  | GetBlobMetadata jsval string string
  | HttpRequest httpOptions binaryStreamObject
  | Uncaught string

section \<open>Environment configuration\<close>

type_synonym processEnv = "string \<Rightarrow> string option"

text \<open>\<open>process.env.X\<close> when it is truthy: set, and not the empty string.\<close>

definition envVar :: "processEnv \<Rightarrow> string \<Rightarrow> string option" where
  "envVar penv x = (case penv x of None \<Rightarrow> None | Some s \<Rightarrow> if s = [] then None else Some s)"

definition unableToLocate :: "string \<Rightarrow> action list \<times> (string \<times> jsval) list option" where
  "unableToLocate x =
     (let errorMsg = ''Unable to locate environment variable '' @ x
      in ([LogError errorMsg, Done (Some errorMsg)], None))"

text \<open>
  \<open>getEnvironmentConfiguration\<close> of index.js: the actions it performs and the
  configuration object it returns (\<open>None\<close> is \<open>null\<close>).
\<close>

definition getEnvironmentConfiguration ::
  "processEnv \<Rightarrow> action list \<times> (string \<times> jsval) list option" where
  "getEnvironmentConfiguration penv =
     (case envVar penv ''StorageConStr'' of None \<Rightarrow> unableToLocate ''StorageConStr'' | Some _ \<Rightarrow>
      case envVar penv ''ENV_RDP_HOST'' of None \<Rightarrow> unableToLocate ''ENV_RDP_HOST'' | Some h \<Rightarrow>
      case envVar penv ''ENV_RDP_PORT'' of None \<Rightarrow> unableToLocate ''ENV_RDP_PORT'' | Some p \<Rightarrow>
      case envVar penv ''ENV_CLIENT_ID'' of None \<Rightarrow> unableToLocate ''ENV_CLIENT_ID'' | Some c \<Rightarrow>
      case envVar penv ''ENV_DEFAULT_USER_ID'' of
        None \<Rightarrow> unableToLocate ''ENV_DEFAULT_USER_ID'' | Some u \<Rightarrow>
      case envVar penv ''ENV_DEFAULT_USER_ROLES'' of
        None \<Rightarrow> unableToLocate ''ENV_DEFAULT_USER_ROLES'' | Some r \<Rightarrow>
      ([], Some [(''rdpHost'', Str h), (''rdpPort'', Str p), (''defaultClientId'', Str c),
                 (''defaultUserId'', Str u), (''defaultUserRoles'', Str r)]))"

text \<open>The variant handler's configuration reader does not look at \<open>StorageConStr\<close>.\<close>

definition getEnvironmentConfigurationVariant ::
  "processEnv \<Rightarrow> action list \<times> (string \<times> jsval) list option" where
  "getEnvironmentConfigurationVariant penv =
     (case envVar penv ''ENV_RDP_HOST'' of None \<Rightarrow> unableToLocate ''ENV_RDP_HOST'' | Some h \<Rightarrow>
      case envVar penv ''ENV_RDP_PORT'' of None \<Rightarrow> unableToLocate ''ENV_RDP_PORT'' | Some p \<Rightarrow>
      case envVar penv ''ENV_CLIENT_ID'' of None \<Rightarrow> unableToLocate ''ENV_CLIENT_ID'' | Some c \<Rightarrow>
      case envVar penv ''ENV_DEFAULT_USER_ID'' of
        None \<Rightarrow> unableToLocate ''ENV_DEFAULT_USER_ID'' | Some u \<Rightarrow>
      case envVar penv ''ENV_DEFAULT_USER_ROLES'' of
        None \<Rightarrow> unableToLocate ''ENV_DEFAULT_USER_ROLES'' | Some r \<Rightarrow>
      ([], Some [(''rdpHost'', Str h), (''rdpPort'', Str p), (''defaultClientId'', Str c),
                 (''defaultUserId'', Str u), (''defaultUserRoles'', Str r)]))"

section \<open>Request headers\<close>

definition getPropertyValueFromMetadata ::
  "(string \<times> string) list \<Rightarrow> string \<Rightarrow> jsval \<Rightarrow> jsval" where
  "getPropertyValueFromMetadata blobMetadata propertyName defaultValue =
     (if truthy (getMeta blobMetadata propertyName) then getMeta blobMetadata propertyName
      else defaultValue)"

definition createRequestHeaders ::
  "(string \<times> jsval) list \<Rightarrow> (string \<times> string) list \<Rightarrow> (string \<times> jsval) list" where
  "createRequestHeaders envConfig blobMetadata =
     (let tenantId = getMeta blobMetadata ''x-rdp-tenantid'';
          clientId = getPropertyValueFromMetadata blobMetadata ''x-rdp-clientid''
                       (getProp envConfig ''defaultClientId'');
          headers =
            [(''Content-Type'', Str ''application/json''),
             (''x-rdp-version'', Str ''8.1''),
             (''x-rdp-clientId'', clientId),
             (''x-rdp-tenantId'', tenantId),
             (''x-rdp-userId'',
                if truthy (getMeta blobMetadata ''x-rdp-userid'')
                then getMeta blobMetadata ''x-rdp-userid''
                else getProp envConfig ''defaultUserId''),
             (''x-rdp-userRoles'',
                if truthy (getMeta blobMetadata ''x-rdp-userroles'')
                then getMeta blobMetadata ''x-rdp-userroles''
                else getProp envConfig ''defaultUserRoles'')]
      in if truthy (getMeta blobMetadata ''x-rdp-ownershipdata'')
         then setProp ''x-rdp-ownershipData''
                (getMeta blobMetadata ''x-rdp-ownershipdata'') headers
         else headers)"

section \<open>buildBinaryStreamObject\<close>

record eventData =
  contentLength :: jsval
  url :: string

record eventGridEvent =
  subject :: string
  data :: eventData

text \<open>The context, as far as the handler reads it: \<open>context.bindingData.invocationId\<close>.\<close>

record functionContext =
  invocationId :: string

text \<open>\<open>m.k ? m.k : d\<close> on blob metadata: the value under \<open>k\<close> if it is truthy.\<close>

definition metaOr :: "(string \<times> string) list \<Rightarrow> string \<Rightarrow> string \<Rightarrow> string" where
  "metaOr blobMetadata k d =
     (case map_of blobMetadata k of None \<Rightarrow> d | Some v \<Rightarrow> if v = [] then d else v)"

text \<open>The object literal's properties, and \<open>ownershipData\<close> when the header is truthy.\<close>

definition initialProperties ::
  "string \<Rightarrow> string \<Rightarrow> eventGridEvent \<Rightarrow> (string \<times> jsval) list \<Rightarrow> (string \<times> jsval) list" where
  "initialProperties blobObjectKey assignedOriginalFileName eventGridEvent headers =
     (let properties =
            [(''objectKey'', Str blobObjectKey),
             (''originalFileName'', Str assignedOriginalFileName),
             (''fullObjectPath'', Str blobObjectKey),
             (''contentSize'', contentLength (data eventGridEvent)),
             (''user'', getProp headers ''x-rdp-userId''),
             (''role'', getProp headers ''x-rdp-userRoles'')]
      in if truthy (getProp headers ''x-rdp-ownershipData'')
         then setProp ''ownershipData'' (getProp headers ''x-rdp-ownershipData'') properties
         else properties)"

text \<open>
  The loop over \<open>blobMetadata\<close>, on the keys still to visit: a key goes into the
  properties when it does not contain \<open>x-rdp\<close> and the properties do not have it yet.
  The second test is skipped for a key that contains \<open>x-rdp\<close>; where it runs, it can
  throw, and the loop ends there.
\<close>

fun copyMetadata ::
  "(string \<times> string) list \<Rightarrow> (string \<times> string) list \<Rightarrow> (string \<times> jsval) list
     \<Rightarrow> string + (string \<times> jsval) list" where
  "copyMetadata blobMetadata [] props = Inr props"
| "copyMetadata blobMetadata ((propertyName, _) # rest) props =
     (if includes_str ''x-rdp'' propertyName then copyMetadata blobMetadata rest props
      else (case hasOwnProperty props propertyName of
              Inl e \<Rightarrow> Inl e
            | Inr True \<Rightarrow> copyMetadata blobMetadata rest props
            | Inr False \<Rightarrow>
                copyMetadata blobMetadata rest
                  (setProp propertyName (getMeta blobMetadata propertyName) props)))"

text \<open>
  \<open>blobMetadata\<close> is the fetched, not the normalised, metadata.  \<open>delete\<close> changes the
  object inside \<open>blobMetadataResult\<close>; nothing reads that object after this function,
  so the changed metadata stays local here.  The task id is read under the property
  name \<open>TASK_ID_METADATA_PROPERTY\<close>, as \<open>blobMetadata.TASK_ID_METADATA_PROPERTY\<close> does.
  The result is the descriptor (\<open>Inr\<close>) or the exception of the copy loop (\<open>Inl\<close>).
\<close>

definition buildBinaryStreamObject ::
  "functionContext \<Rightarrow> eventGridEvent \<Rightarrow> blobMetadataResult \<Rightarrow> (string \<times> jsval) list
     \<Rightarrow> string + binaryStreamObject" where
  "buildBinaryStreamObject context eventGridEvent blobMetadataResult headers =
     (let blobObjectKey = name blobMetadataResult;
          blobMetadata0 = metadata blobMetadataResult;
          assignedObjectId =
            metaOr blobMetadata0 ''binarystreamobjectid'' (invocationId context);
          assignedOriginalFileName =
            metaOr blobMetadata0 ''originalfilename'' (last (split CHR ''/'' blobObjectKey));
          blobMetadata =
            (if truthy (getMeta blobMetadata0 ''originalfilename'')
             then AList.delete ''originalfilename'' blobMetadata0
             else blobMetadata0);
          taskId = metaOr blobMetadata ''TASK_ID_METADATA_PROPERTY'' (invocationId context)
      in case copyMetadata blobMetadata blobMetadata
                (initialProperties blobObjectKey assignedOriginalFileName
                   eventGridEvent headers) of
           Inl e \<Rightarrow> Inl e
         | Inr props \<Rightarrow>
             Inr \<lparr>taskId = taskId,
                  objectId = assignedObjectId,
                  objectType = ''binarystreamobject'',
                  properties = props\<rparr>)"

section \<open>postBinaryStreamObject\<close>

text \<open>String concatenation turns its operand into a string.\<close>

fun showNat :: "nat \<Rightarrow> string" where
  "showNat n =
     (if n < 10 then [''0123456789'' ! n]
      else showNat (n div 10) @ [''0123456789'' ! (n mod 10)])"

fun jsToString :: "jsval \<Rightarrow> string" where
  "jsToString Undefined = ''undefined''"
| "jsToString (Str s) = s"
| "jsToString (Num n) = (if n < 0 then ''-'' @ showNat (nat (- n)) else showNat (nat n))"

definition getHttpRequestOptions ::
  "(string \<times> jsval) list \<Rightarrow> (string \<times> jsval) list \<Rightarrow> httpOptions" where
  "getHttpRequestOptions envConfig headers =
     \<lparr>protocol = ''http:'',
      host = getProp envConfig ''rdpHost'',
      port = getProp envConfig ''rdpPort'',
      path = ''/'' @ jsToString (getProp headers ''x-rdp-tenantId'')
               @ ''/api/binarystreamobjectservice/create'',
      requestMethod = ''POST'',
      requestHeaders = headers\<rparr>"

text \<open>
  What \<open>JSON.parse\<close> returns.  The parser belongs to the runtime and is a parameter
  \<open>parse\<close> of the model: \<open>None\<close> is the \<open>SyntaxError\<close> it throws.  The list of a
  \<open>JObject\<close> holds the properties of the parsed object, read with \<open>map_of\<close>.
\<close>

datatype json =
    JNull
  | JBool bool
  | JNumber rat
  | JString string
  | JArray "json list"
  | JObject "(string \<times> json) list"

text \<open>Truthiness of a value that may be \<open>undefined\<close> (\<open>None\<close>).\<close>

fun jtruthy :: "json option \<Rightarrow> bool" where
  "jtruthy None = False"
| "jtruthy (Some JNull) = False"
| "jtruthy (Some (JBool b)) = b"
| "jtruthy (Some (JNumber n)) = (n \<noteq> 0)"
| "jtruthy (Some (JString s)) = (s \<noteq> [])"
| "jtruthy (Some (JArray _)) = True"
| "jtruthy (Some (JObject _)) = True"

text \<open>
  Reading the property \<open>response\<close> or \<open>status\<close> of a truthy value: only an object
  can have it; on a number, a string, \<open>true\<close> or an array the read gives \<open>undefined\<close>.
\<close>

fun jprop :: "json option \<Rightarrow> string \<Rightarrow> json option" where
  "jprop (Some (JObject kvs)) k = map_of kvs k"
| "jprop _ k = None"

text \<open>
  The condition of the inner \<open>if\<close>: \<open>Inr\<close> its truth value, \<open>Inl\<close> the \<open>TypeError\<close> of
  calling \<open>toLowerCase\<close> on a truthy status that is not a string.
\<close>

definition statusIsSuccess :: "json \<Rightarrow> string + bool" where
  "statusIsSuccess responseJson =
     (let response = jprop (Some responseJson) ''response'';
          status = jprop response ''status''
      in if jtruthy (Some responseJson) \<and> jtruthy response \<and> jtruthy status
         then (case status of
                 Some (JString s) \<Rightarrow> Inr (toLowerCase s = ''success'')
               | _ \<Rightarrow> Inl ''TypeError: responseJson.response.status.toLowerCase is not a function'')
         else Inr False)"

definition restCallFailed :: string where
  "restCallFailed = ''Fail to make REST api call to post the binary stream object.''"

definition complete :: "bool \<Rightarrow> action list" where
  "complete isSuccessfull =
     (if isSuccessfull then [Done None]
      else [LogError restCallFailed, Done (Some restCallFailed)])"

text \<open>The listener for \<open>end\<close>, on the status code and the accumulated body.\<close>

definition onEnd :: "(string \<Rightarrow> json option) \<Rightarrow> nat \<Rightarrow> string \<Rightarrow> action list" where
  "onEnd parse statusCode responseBody =
     (if statusCode = 200 \<and> responseBody \<noteq> []
      then (case parse responseBody of
              None \<Rightarrow> [Uncaught ''SyntaxError'']
            | Some responseJson \<Rightarrow>
                (case statusIsSuccess responseJson of
                   Inl e \<Rightarrow> [Uncaught e]
                 | Inr isSuccessfull \<Rightarrow> complete isSuccessfull))
      else complete False)"

text \<open>
  What the server does with the request: a response with its status code, the chunks of
  its body and the event that closes it, or no response at all (the request emits
  \<open>error\<close>, for which the code registers no listener).
\<close>

datatype responseEvent = End | ResponseError string

datatype httpOutcome =
    Response nat "string list" responseEvent
  | RequestError string

type_synonym httpServer = "httpOptions \<Rightarrow> binaryStreamObject \<Rightarrow> httpOutcome"

definition postBinaryStreamObject ::
  "httpServer \<Rightarrow> (string \<Rightarrow> json option) \<Rightarrow> (string \<times> jsval) list
     \<Rightarrow> (string \<times> jsval) list \<Rightarrow> binaryStreamObject \<Rightarrow> action list" where
  "postBinaryStreamObject http parse envConfig headers binaryStreamObject =
     (let options = getHttpRequestOptions envConfig headers
      in HttpRequest options binaryStreamObject #
         (case http options binaryStreamObject of
            Response statusCode chunks End \<Rightarrow> onEnd parse statusCode (concat chunks)
          | Response statusCode chunks (ResponseError e) \<Rightarrow>
              [LogError (''Error while calling REST API: '' @ e),
               Done (Some (''Error while calling REST API: '' @ e))]
          | RequestError e \<Rightarrow> [Uncaught e]))"

text \<open>The variant logs the response before it parses it.\<close>

definition postBinaryStreamObjectVariant ::
  "httpServer \<Rightarrow> (string \<Rightarrow> json option) \<Rightarrow> (string \<times> jsval) list
     \<Rightarrow> (string \<times> jsval) list \<Rightarrow> binaryStreamObject \<Rightarrow> action list" where
  "postBinaryStreamObjectVariant http parse envConfig headers binaryStreamObject =
     (let options = getHttpRequestOptions envConfig headers
      in HttpRequest options binaryStreamObject #
         (case http options binaryStreamObject of
            Response statusCode chunks End \<Rightarrow>
              (if statusCode = 200 \<and> concat chunks \<noteq> []
               then [Log (''Using taskId '' @ taskId binaryStreamObject
                           @ '', RDP API Response: '' @ concat chunks)]
               else [])
              @ onEnd parse statusCode (concat chunks)
          | Response statusCode chunks (ResponseError e) \<Rightarrow>
              [LogError (''Error while calling REST API: '' @ e),
               Done (Some (''Error while calling REST API: '' @ e))]
          | RequestError e \<Rightarrow> [Uncaught e]))"

section \<open>The handlers\<close>

text \<open>
  The storage service answers a metadata request with an error, with nothing, or with
  the blob's name and metadata.
\<close>

datatype fetchOutcome = FetchError string | Fetched "blobMetadataResult option"

type_synonym blobService = "jsval \<Rightarrow> string \<Rightarrow> string \<Rightarrow> fetchOutcome"

text \<open>The callback of \<open>getBlobMetadata\<close> in index.js.\<close>

definition onBlobMetadata ::
  "httpServer \<Rightarrow> (string \<Rightarrow> json option) \<Rightarrow> functionContext \<Rightarrow> eventGridEvent
     \<Rightarrow> (string \<times> jsval) list \<Rightarrow> fetchOutcome \<Rightarrow> action list" where
  "onBlobMetadata http parse context eventGridEvent envConfig outcome =
     (case outcome of
        FetchError error \<Rightarrow>
          [Log ''Error fetching metadata'', Log ''subjectVal: '', Done None]
      | Fetched None \<Rightarrow> []
      | Fetched (Some blobMetadataResult) \<Rightarrow>
          (let blobMetadata = getBlobMetadata blobMetadataResult
           in if truthy (getMeta blobMetadata ''x-rdp-tenantid'')
              then (let headers = createRequestHeaders envConfig blobMetadata
                    in case buildBinaryStreamObject context eventGridEvent
                              blobMetadataResult headers of
                         Inl e \<Rightarrow> [Uncaught e]
                       | Inr binaryStreamObject \<Rightarrow>
                           postBinaryStreamObject http parse envConfig headers
                             binaryStreamObject)
              else [LogError ''TenantId is not present in asset metadata'']))"

text \<open>
  The handler of index.js from the test of \<open>envConfig\<close> to its end: the request for
  the metadata when the configuration has a connection string, the \<open>context.done()\<close>
  of the handler's last line, and then the callback, which runs after the handler has
  returned.
\<close>

definition fetchAndComplete ::
  "blobService \<Rightarrow> httpServer \<Rightarrow> (string \<Rightarrow> json option) \<Rightarrow> functionContext
     \<Rightarrow> eventGridEvent \<Rightarrow> string \<Rightarrow> string \<Rightarrow> (string \<times> jsval) list option
     \<Rightarrow> action list" where
  "fetchAndComplete storage http parse context eventGridEvent containerName fileBlobName
       envConfig =
     (case envConfig of
        None \<Rightarrow> [Done None]
      | Some config \<Rightarrow>
          if truthy (getProp config ''StorageConStr'')
          then (let StorageCreds = getProp config ''StorageConStr''
                in [GetBlobMetadata StorageCreds containerName fileBlobName, Done None]
                   @ onBlobMetadata http parse context eventGridEvent config
                       (storage StorageCreds containerName fileBlobName))
          else [Done None])"

text \<open>The handler of index.js.\<close>

definition handler ::
  "processEnv \<Rightarrow> blobService \<Rightarrow> httpServer \<Rightarrow> (string \<Rightarrow> json option)
     \<Rightarrow> functionContext \<Rightarrow> eventGridEvent \<Rightarrow> action list" where
  "handler penv storage http parse context eventGridEvent =
     (let subjectVal = split CHR ''/'' (subject eventGridEvent)
      in if length subjectVal = 7
         then (let containerName = subjectVal ! 4;
                   fileBlobName = last subjectVal;
                   (logged, envConfig) = getEnvironmentConfiguration penv
               in logged
                  @ fetchAndComplete storage http parse context eventGridEvent
                      containerName fileBlobName envConfig)
         else [Done None])"

text \<open>
  The variant handler (the second source file).  Its connection string is a literal of
  the source, whose account key is not repeated here; the container name is a literal
  too.  It calls \<open>context.done\<close> only through the functions it calls.
\<close>

definition connectionString :: string where
  "connectionString =
     ''DefaultEndpointsProtocol=https;AccountName=enggazqa5mediastorage;EndpointSuffix=core.windows.net''"

definition handlerVariant ::
  "processEnv \<Rightarrow> blobService \<Rightarrow> httpServer \<Rightarrow> (string \<Rightarrow> json option)
     \<Rightarrow> functionContext \<Rightarrow> eventGridEvent \<Rightarrow> action list" where
  "handlerVariant penv storage http parse context eventGridEvent =
     (let subjectVal = subject eventGridEvent
      in if \<not> includes_str ''/renditions/'' subjectVal
         then (let fileBlobName = last (split CHR ''/'' (url (data eventGridEvent)))
               in GetBlobMetadata (Str connectionString)
                    ''rdp-media-assets-engg-az-qa5-rwtest'' fileBlobName #
                  (case storage (Str connectionString)
                          ''rdp-media-assets-engg-az-qa5-rwtest'' fileBlobName of
                     FetchError error \<Rightarrow> [Log ''Error fetching metadata'']
                   | Fetched None \<Rightarrow> []
                   | Fetched (Some blobMetadataResult) \<Rightarrow>
                       (let (logged, envConfig) = getEnvironmentConfigurationVariant penv
                        in case envConfig of
                             None \<Rightarrow> logged
                           | Some config \<Rightarrow>
                               (let blobMetadata = getBlobMetadata blobMetadataResult
                                in if truthy (getMeta blobMetadata ''x-rdp-tenantid'')
                                   then (let headers = createRequestHeaders config blobMetadata
                                         in case buildBinaryStreamObject context
                                                   eventGridEvent blobMetadataResult headers of
                                              Inl e \<Rightarrow> logged @ [Uncaught e]
                                            | Inr binaryStreamObject \<Rightarrow>
                                                logged
                                                @ postBinaryStreamObjectVariant http parse
                                                    config headers binaryStreamObject)
                                   else logged))))
         else [Log ''objectKey has slash in it''])"


section \<open>Reading a run\<close>

text \<open>The arguments of the calls to \<open>context.done\<close>, in order.\<close>

fun doneSignals :: "action list \<Rightarrow> string option list" where
  "doneSignals [] = []"
| "doneSignals (Done e # as) = e # doneSignals as"
| "doneSignals (_ # as) = doneSignals as"

text \<open>The requests to the storage service and to the API server, in order.\<close>

fun networkCalls :: "action list \<Rightarrow> action list" where
  "networkCalls [] = []"
| "networkCalls (GetBlobMetadata c n b # as) = GetBlobMetadata c n b # networkCalls as"
| "networkCalls (HttpRequest opts b # as) = HttpRequest opts b # networkCalls as"
| "networkCalls (_ # as) = networkCalls as"

text \<open>The environment variables that \<open>getEnvironmentConfiguration\<close> of index.js checks.\<close>

definition requiredVariables :: "string list" where
  "requiredVariables =
     [''StorageConStr'', ''ENV_RDP_HOST'', ''ENV_RDP_PORT'', ''ENV_CLIENT_ID'',
      ''ENV_DEFAULT_USER_ID'', ''ENV_DEFAULT_USER_ROLES'']"

section \<open>Sample inputs\<close>

definition sampleContext :: functionContext where
  "sampleContext = \<lparr>invocationId = ''inv-1''\<rparr>"

definition sampleEvent :: eventGridEvent where
  "sampleEvent =
     \<lparr>subject = ''/blobServices/default/containers/media/blobs/photo.tiff'',
      data = \<lparr>contentLength = Num 2048,
              url = ''https://account.blob.core.windows.net/media/photo.tiff''\<rparr>\<rparr>"

definition nestedEvent :: eventGridEvent where
  "nestedEvent =
     \<lparr>subject = ''/blobServices/default/containers/media/blobs/renditions/photo.tiff'',
      data = \<lparr>contentLength = Num 2048,
              url = ''https://account.blob.core.windows.net/media/renditions/photo.tiff''\<rparr>\<rparr>"

definition noEnvironment :: processEnv where
  "noEnvironment x = None"

definition storageDown :: blobService where
  "storageDown creds container blob = FetchError ''timeout''"

definition storageHolding :: "blobMetadataResult \<Rightarrow> blobService" where
  "storageHolding r creds container blob = Fetched (Some r)"

definition serverDown :: httpServer where
  "serverDown options body = RequestError ''ECONNREFUSED''"

definition serverAnswering :: "nat \<Rightarrow> string \<Rightarrow> httpServer" where
  "serverAnswering statusCode responseBody options body = Response statusCode [responseBody] End"

definition parseNothing :: "string \<Rightarrow> json option" where
  "parseNothing s = None"

text \<open>A parser that knows one text and its value.\<close>

definition parsesTo :: "string \<Rightarrow> json \<Rightarrow> string \<Rightarrow> json option" where
  "parsesTo text j s = (if s = text then Some j else None)"

text \<open>The two response bodies of the specification's example, and what they parse to.\<close>

definition successBody :: string where
  \<open>successBody = ''{"response":{"status":"Success"}}''\<close>

definition failedBody :: string where
  \<open>failedBody = ''{"response":{"status":"failed"}}''\<close>

definition statusResponse :: "string \<Rightarrow> json" where
  "statusResponse s = JObject [(''response'', JObject [(''status'', JString s)])]"

section \<open>Strings and association lists\<close>

lemma toLowerChar_idem: "toLowerChar (toLowerChar c) = toLowerChar c"
  by (auto simp: toLowerChar_def split: option.splits if_splits)

lemma toLowerCase_idem: "toLowerCase (toLowerCase s) = toLowerCase s"
  by (simp add: toLowerCase_def toLowerChar_idem)

lemma replace_absent: "\<not> includes_str pat s \<Longrightarrow> replace pat rep s = s"
  by (induction s) auto

lemma prefix_includes: "prefix (p @ q) s \<Longrightarrow> includes_str p s"
  by (cases s) (auto simp: prefix_def)

text \<open>
  A loop that assigns \<open>acc[f k] = v\<close> for the entries of \<open>xs\<close> in order: a later entry
  overwrites an earlier one with the same \<open>f k\<close>.
\<close>

lemma map_of_foldl_update:
  "map_of (foldl (\<lambda>acc (k, v). AList.update (f k) v acc) acc xs)
     = map_of acc ++ map_of (rev (map (\<lambda>(k, v). (f k, v)) xs))"
proof (induction xs arbitrary: acc)
  case Nil
  then show ?case by simp
next
  case (Cons p xs)
  obtain k v where p: "p = (k, v)" by (cases p)
  have "(map_of acc)(f k \<mapsto> v) ++ m = map_of acc ++ ([f k \<mapsto> v] ++ m)" for m
    by (rule ext) (simp add: map_add_def split: option.splits)
  then show ?case
    by (simp add: p Cons.IH update_conv' del: fun_upd_apply)
qed

lemma keys_foldl_update:
  "fst ` set (foldl (\<lambda>acc (k, v). AList.update (f k) v acc) acc xs)
     = fst ` set acc \<union> f ` fst ` set xs"
proof -
  have "fst ` set (rev (map (\<lambda>(k, v). (f k, v)) xs)) = f ` fst ` set xs"
    by force
  then have "dom (map_of (foldl (\<lambda>acc (k, v). AList.update (f k) v acc) acc xs))
          = dom (map_of acc) \<union> f ` fst ` set xs"
    unfolding map_of_foldl_update dom_map_add dom_map_of_conv_image_fst by blast
  then show ?thesis
    by (simp only: dom_map_of_conv_image_fst)
qed

lemma foldl_update_distinct:
  "distinct (map fst (acc @ xs)) \<Longrightarrow> \<forall>k \<in> fst ` set xs. f k = k \<Longrightarrow>
   foldl (\<lambda>acc (k, v). AList.update (f k) v acc) acc xs = acc @ xs"
proof (induction xs arbitrary: acc)
  case Nil
  then show ?case by simp
next
  case (Cons p xs)
  obtain k v where p: "p = (k, v)" by (cases p)
  from Cons.prems have fk: "f k = k" by (simp add: p)
  from Cons.prems have "k \<notin> fst ` set acc" by (auto simp: p)
  then have up: "AList.update k v acc = acc @ [(k, v)]"
    by (induction acc) auto
  show ?case using Cons.IH[of "acc @ [(k, v)]"] Cons.prems
    by (simp add: p fk up)
qed

lemma distinct_foldl_update:
  "distinct (map fst acc) \<Longrightarrow>
   distinct (map fst (foldl (\<lambda>acc (k, v). AList.update (f k) v acc) acc xs))"
  by (induction xs arbitrary: acc) (auto simp: distinct_update)

lemma foldl_setProp:
  "foldl (\<lambda>acc (k, v). setProp (f k) v acc) acc xs
     = foldl (\<lambda>acc (k, v). AList.update (f k) v acc) acc
         (filter (\<lambda>(k, v). f k \<noteq> ''__proto__'') xs)"
  by (induction xs arbitrary: acc) (auto simp: setProp_def)

lemma filter_key_distinct:
  "distinct (map fst xs) \<Longrightarrow> (k, v) \<in> set xs \<Longrightarrow> filter (\<lambda>e. fst e = k) xs = [(k, v)]"
proof (induction xs)
  case Nil
  then show ?case by simp
next
  case (Cons p xs)
  show ?case
  proof (cases "p = (k, v)")
    case True
    with Cons.prems have "\<forall>e \<in> set xs. fst e \<noteq> k" by force
    then have "filter (\<lambda>e. fst e = k) xs = []" by (simp add: filter_empty_conv)
    with True show ?thesis by simp
  next
    case False
    with Cons.prems have in_xs: "(k, v) \<in> set xs" by simp
    then have "k \<in> fst ` set xs" by force
    with Cons.prems have "fst p \<noteq> k" by auto
    with Cons in_xs show ?thesis by simp
  qed
qed

lemma networkCalls_append: "networkCalls (xs @ ys) = networkCalls xs @ networkCalls ys"
  by (induction xs rule: networkCalls.induct) auto

section \<open>Key normalisation\<close>

lemma getBlobMetadata_fold:
  "getBlobMetadata r
     = foldl (\<lambda>acc (k, v). AList.update (normalizeKey k) v acc) []
         (filter (\<lambda>(k, v). normalizeKey k \<noteq> ''__proto__'') (metadata r))"
  by (simp add: getBlobMetadata_def foldl_setProp)

lemma distinct_getBlobMetadata: "distinct (map fst (getBlobMetadata r))"
  by (simp add: getBlobMetadata_fold distinct_foldl_update)

lemma keys_getBlobMetadata:
  "fst ` set (getBlobMetadata r) = normalizeKey ` fst ` set (metadata r) - {''__proto__''}"
  by (force simp: getBlobMetadata_fold keys_foldl_update)

lemma map_of_getBlobMetadata:
  "map_of (getBlobMetadata r)
     = map_of (rev (map (\<lambda>(k, v). (normalizeKey k, v))
         (filter (\<lambda>(k, v). normalizeKey k \<noteq> ''__proto__'') (metadata r))))"
  by (simp add: getBlobMetadata_fold map_of_foldl_update)

lemma normalizeKey_fixed:
  assumes "\<not> includes_str RDP_ESCAPING_PREFIX (normalizeKey k)"
  shows "normalizeKey (normalizeKey k) = normalizeKey k"
proof -
  have "replace RDP_ESCAPING_PREFIX RDP_PREFIX (normalizeKey k) = normalizeKey k"
    using assms by (rule replace_absent)
  then show ?thesis
    by (simp add: normalizeKey_def[of "normalizeKey k"])
       (simp add: normalizeKey_def toLowerCase_idem)
qed

lemma normalizeKey_samples:
  "normalizeKey ''x_rdp_TenantId'' = ''x-rdp-tenantid''"
  "normalizeKey ''__PROTO__'' = ''__proto__''"
  "normalizeKey ''__Proto__'' = ''__proto__''"
  "normalizeKey ''X_RDP_TENANTID'' = ''x_rdp_tenantid''"
  "normalizeKey ''x_rdp_tenantid'' = ''x-rdp-tenantid''"
  "normalizeKey ''Color'' = ''color''"
  "normalizeKey ''color'' = ''color''"
  by (simp_all add: normalizeKey_def toLowerCase_def toLowerChar_def
      RDP_ESCAPING_PREFIX_def RDP_PREFIX_def)

text \<open>
  C8, as the code has it.  Normalising twice gives the same map as normalising once
  for every metadata map whose normalised keys no longer contain the escaping prefix
  \<open>x_rdp_\<close>.  (The prefix survives the first pass when it is written in capitals or
  occurs twice: \<open>replace\<close> is case sensitive, runs before \<open>toLowerCase\<close>, and replaces
  one occurrence.)
\<close>

theorem normalization_idempotent_without_escaping_prefix:
  assumes "\<forall>k \<in> fst ` set (getBlobMetadata r). \<not> includes_str RDP_ESCAPING_PREFIX k"
  shows "getBlobMetadata (r\<lparr>metadata := getBlobMetadata r\<rparr>) = getBlobMetadata r"
proof -
  have fixed: "\<forall>k \<in> fst ` set (getBlobMetadata r). normalizeKey k = k"
  proof
    fix k
    assume k: "k \<in> fst ` set (getBlobMetadata r)"
    then obtain a where "k = normalizeKey a"
      by (auto simp: keys_getBlobMetadata)
    moreover from assms k have "\<not> includes_str RDP_ESCAPING_PREFIX k"
      by blast
    ultimately show "normalizeKey k = k"
      by (simp add: normalizeKey_fixed)
  qed
  have "\<forall>k \<in> fst ` set (getBlobMetadata r). k \<noteq> ''__proto__''"
    by (simp add: keys_getBlobMetadata)
  with fixed have "\<forall>e \<in> set (getBlobMetadata r). normalizeKey (fst e) \<noteq> ''__proto__''"
    by simp
  then have kept: "filter (\<lambda>(k, v). normalizeKey k \<noteq> ''__proto__'') (getBlobMetadata r)
                     = getBlobMetadata r"
    by (auto simp: filter_id_conv)
  have "foldl (\<lambda>acc (k, v). AList.update (normalizeKey k) v acc) [] (getBlobMetadata r)
               = [] @ getBlobMetadata r"
    using fixed by (intro foldl_update_distinct) (simp_all add: distinct_getBlobMetadata)
  then show ?thesis
    by (simp add: getBlobMetadata_fold[of "r\<lparr>metadata := getBlobMetadata r\<rparr>"] kept)
qed

theorem normalization_idempotent_witness:
  "getBlobMetadata
        \<lparr>name = ''photo.tiff'',
         metadata = [(''x_rdp_TenantId'', ''T1''), (''Color'', ''red'')]\<rparr>
       = [(''x-rdp-tenantid'', ''T1''), (''color'', ''red'')]
   \<and> \<not> includes_str RDP_ESCAPING_PREFIX ''x-rdp-tenantid''
   \<and> \<not> includes_str RDP_ESCAPING_PREFIX ''color''
   \<and> getBlobMetadata
        (\<lparr>name = ''photo.tiff'',
          metadata = [(''x_rdp_TenantId'', ''T1''), (''Color'', ''red'')]\<rparr>
           \<lparr>metadata := getBlobMetadata
              \<lparr>name = ''photo.tiff'',
               metadata = [(''x_rdp_TenantId'', ''T1''), (''Color'', ''red'')]\<rparr>\<rparr>)
       = [(''x-rdp-tenantid'', ''T1''), (''color'', ''red'')]"
proof -
  have once: "getBlobMetadata
        \<lparr>name = ''photo.tiff'',
         metadata = [(''x_rdp_TenantId'', ''T1''), (''Color'', ''red'')]\<rparr>
          = [(''x-rdp-tenantid'', ''T1''), (''color'', ''red'')]"
    by (simp add: getBlobMetadata_def setProp_def normalizeKey_samples)
  have h: "\<forall>k \<in> fst ` set (getBlobMetadata
        \<lparr>name = ''photo.tiff'',
         metadata = [(''x_rdp_TenantId'', ''T1''), (''Color'', ''red'')]\<rparr>).
      \<not> includes_str RDP_ESCAPING_PREFIX k"
    by (simp add: once RDP_ESCAPING_PREFIX_def)
  show ?thesis
    using normalization_idempotent_without_escaping_prefix [OF h] h
    by (simp add: once)
qed

text \<open>
  C8 as stated fails: a key with the escaping prefix in capitals keeps the prefix on
  the first pass and loses it on the second.
\<close>

theorem normalization_not_idempotent:
  "map_of (getBlobMetadata \<lparr>name = ''photo.tiff'', metadata = [(''X_RDP_TENANTID'', ''T1'')]\<rparr>)
       ''x-rdp-tenantid'' = None
   \<and> map_of (getBlobMetadata \<lparr>name = ''photo.tiff'',
         metadata = getBlobMetadata
           \<lparr>name = ''photo.tiff'', metadata = [(''X_RDP_TENANTID'', ''T1'')]\<rparr>\<rparr>)
       ''x-rdp-tenantid'' = Some ''T1''"
  by (simp add: getBlobMetadata_def setProp_def normalizeKey_samples)

text \<open>
  Two different keys with one normalised key other than \<open>__proto__\<close>: the result has
  fewer entries than the metadata and exactly one entry under that key, whose value is
  the value of one of the keys that normalise to it.
\<close>

lemma collision_keeps_one_value:
  assumes "(k1, v1) \<in> set (metadata r)" and "(k2, v2) \<in> set (metadata r)"
    and "k1 \<noteq> k2" and "normalizeKey k1 = normalizeKey k2"
    and "normalizeKey k1 \<noteq> ''__proto__''"
  shows "length (getBlobMetadata r) < length (metadata r)
     \<and> (\<exists>k v. (k, v) \<in> set (metadata r) \<and> normalizeKey k = normalizeKey k1
           \<and> filter (\<lambda>e. fst e = normalizeKey k1) (getBlobMetadata r) = [(normalizeKey k1, v)])"
proof -
  let ?K = "fst ` set (metadata r)"
  have k12: "k1 \<in> ?K" "k2 \<in> ?K" using assms(1,2) by force+
  have "\<not> inj_on normalizeKey ?K"
    using k12 assms(3,4) by (auto simp: inj_on_def)
  then have "card (normalizeKey ` ?K) \<noteq> card ?K"
    using eq_card_imp_inj_on[of ?K normalizeKey] by auto
  moreover have "card (normalizeKey ` ?K) \<le> card ?K"
    by (simp add: card_image_le)
  ultimately have "card (normalizeKey ` ?K) < card ?K" by simp
  moreover have "card ?K \<le> length (metadata r)"
    by (metis card_length length_map set_map)
  moreover have "card (normalizeKey ` ?K - {''__proto__''}) \<le> card (normalizeKey ` ?K)"
    by (simp add: card_mono)
  moreover have "length (getBlobMetadata r) = card (normalizeKey ` ?K - {''__proto__''})"
    using distinct_card[OF distinct_getBlobMetadata[of r]]
    by (simp add: keys_getBlobMetadata)
  ultimately have len: "length (getBlobMetadata r) < length (metadata r)" by simp
  have "normalizeKey k1 \<in> fst ` set (getBlobMetadata r)"
    using k12(1) assms(5) by (simp add: keys_getBlobMetadata)
  then obtain v where v: "map_of (getBlobMetadata r) (normalizeKey k1) = Some v"
    by (auto simp: distinct_getBlobMetadata)
  then have "(normalizeKey k1, v) \<in> set (rev (map (\<lambda>(k, v). (normalizeKey k, v))
         (filter (\<lambda>(k, v). normalizeKey k \<noteq> ''__proto__'') (metadata r))))"
    by (auto simp: map_of_getBlobMetadata dest!: map_of_SomeD)
  then obtain k where k: "(k, v) \<in> set (metadata r)" "normalizeKey k = normalizeKey k1"
    by auto
  have "(normalizeKey k1, v) \<in> set (getBlobMetadata r)"
    using v by (rule map_of_SomeD)
  then have "filter (\<lambda>e. fst e = normalizeKey k1) (getBlobMetadata r) = [(normalizeKey k1, v)]"
    by (rule filter_key_distinct[OF distinct_getBlobMetadata])
  with len k show ?thesis by blast
qed

text \<open>
  C10 at the metadata \<open>{__PROTO__: a, __Proto__: b}\<close>.  The two keys are different and
  both normalise to \<open>__proto__\<close>; the assignment under that key stores nothing, and
  the result keeps the value of neither.
\<close>

theorem proto_collision_keeps_no_value:
  "''__PROTO__'' \<noteq> ''__Proto__''
   \<and> normalizeKey ''__PROTO__'' = ''__proto__''
   \<and> normalizeKey ''__Proto__'' = ''__proto__''
   \<and> getBlobMetadata
        \<lparr>name = ''photo.tiff'', metadata = [(''__PROTO__'', ''a''), (''__Proto__'', ''b'')]\<rparr>
       = []"
  by (simp add: getBlobMetadata_def setProp_def normalizeKey_samples)

section \<open>The event subject\<close>

text \<open>
  C1.  When the subject does not split into exactly 7 segments, all the handler does is
  call \<open>context.done()\<close>: no metadata fetch, no HTTP request, no error.
\<close>

theorem handler_skips_other_subjects:
  assumes "length (split CHR ''/'' (subject eventGridEvent)) \<noteq> 7"
  shows "handler penv storage http parse context eventGridEvent = [Done None]"
  using assms by (simp add: handler_def Let_def)

theorem handler_skips_other_subjects_witness:
  "length (split CHR ''/'' (subject nestedEvent)) = 8
   \<and> handler noEnvironment storageDown serverDown parseNothing sampleContext nestedEvent
       = [Done None]"
proof -
  have len: "length (split CHR ''/'' (subject nestedEvent)) = 8"
    by (simp add: nestedEvent_def)
  then have "length (split CHR ''/'' (subject nestedEvent)) \<noteq> 7" by simp
  from handler_skips_other_subjects [OF this] len show ?thesis by simp
qed

section \<open>The metadata callback\<close>

text \<open>
  C6, as the code has it.  When the metadata fetch fails, the callback writes two log
  entries and calls \<open>context.done()\<close> without an error; it makes no HTTP request and
  does not fetch again.
\<close>

theorem fetch_failure:
  "onBlobMetadata http parse context eventGridEvent envConfig (FetchError error)
     = [Log ''Error fetching metadata'', Log ''subjectVal: '', Done None]"
  by (simp add: onBlobMetadata_def)

text \<open>
  C6 as stated fails: after a failed fetch the only completion signal is the one
  without an error.
\<close>

theorem fetch_failure_not_surfaced:
  "doneSignals (onBlobMetadata serverDown parseNothing sampleContext sampleEvent []
                  (FetchError ''timeout'')) = [None]"
  by (simp add: onBlobMetadata_def)

section \<open>The descriptor\<close>

lemma map_of_initialProperties:
  "map_of (initialProperties key fn ev headers) k = None \<longleftrightarrow>
     k \<notin> {''objectKey'', ''originalFileName'', ''fullObjectPath'', ''contentSize'',
            ''user'', ''role''}
     \<and> (truthy (getProp headers ''x-rdp-ownershipData'') \<longrightarrow> k \<noteq> ''ownershipData'')"
  by (simp add: initialProperties_def Let_def setProp_def update_conv')

text \<open>What a copy loop that ends without an exception leaves under a key.\<close>

lemma map_of_copyMetadata:
  "copyMetadata md xs ps = Inr ps' \<Longrightarrow>
   map_of ps' k
   = (case map_of ps k of
        Some x \<Rightarrow> Some x
      | None \<Rightarrow> if k \<in> fst ` set xs \<and> \<not> includes_str ''x-rdp'' k \<and> k \<noteq> ''__proto__''
                then Some (getMeta md k) else None)"
proof (induction xs arbitrary: ps)
  case Nil
  then show ?case by (simp split: option.splits)
next
  case (Cons p xs)
  obtain n w where p: "p = (n, w)" by (cases p)
  show ?case
  proof (cases "includes_str ''x-rdp'' n")
    case True
    with Cons.prems have "copyMetadata md xs ps = Inr ps'" by (simp add: p)
    from Cons.IH [OF this] True show ?thesis
      by (auto simp: p split: option.splits)
  next
    case False
    note notInc = False
    from Cons.prems notInc have own: "map_of ps ''hasOwnProperty'' = None"
      by (auto simp: p hasOwnProperty_def split: if_splits)
    show ?thesis
    proof (cases "map_of ps n = None")
      case False
      with Cons.prems notInc own have "copyMetadata md xs ps = Inr ps'"
        by (auto simp: p hasOwnProperty_def)
      from Cons.IH [OF this] False show ?thesis
        by (auto simp: p split: option.splits)
    next
      case True
      with Cons.prems notInc own
      have "copyMetadata md xs (setProp n (getMeta md n) ps) = Inr ps'"
        by (simp add: p hasOwnProperty_def)
      from Cons.IH [OF this] True notInc show ?thesis
        by (auto simp: p setProp_def update_conv' split: option.splits if_splits)
    qed
  qed
qed

text \<open>The copy loop ends without an exception when no key is \<open>hasOwnProperty\<close>.\<close>

lemma copyMetadata_returns:
  "''hasOwnProperty'' \<notin> fst ` set xs \<Longrightarrow> map_of ps ''hasOwnProperty'' = None \<Longrightarrow>
   \<exists>ps'. copyMetadata md xs ps = Inr ps'"
proof (induction xs arbitrary: ps)
  case Nil
  then show ?case by simp
next
  case (Cons p xs)
  obtain n w where p: "p = (n, w)" by (cases p)
  from Cons.prems have n: "n \<noteq> ''hasOwnProperty''" and xs: "''hasOwnProperty'' \<notin> fst ` set xs"
    by (auto simp: p)
  have sp: "map_of (setProp n v ps) ''hasOwnProperty'' = None" for v
    using n Cons.prems(2) by (simp add: setProp_def update_conv')
  show ?case
  proof (cases "includes_str ''x-rdp'' n")
    case True
    with Cons.IH [OF xs Cons.prems(2)] show ?thesis by (simp add: p)
  next
    case notInc: False
    show ?thesis
    proof (cases "map_of ps n = None")
      case True
      with notInc Cons.prems(2) Cons.IH [OF xs sp] show ?thesis
        by (simp add: p hasOwnProperty_def)
    next
      case False
      with notInc Cons.prems(2) Cons.IH [OF xs Cons.prems(2)] show ?thesis
        by (auto simp: p hasOwnProperty_def)
    qed
  qed
qed

text \<open>The parts of a descriptor that has been built.\<close>

lemma buildBinaryStreamObject_Inr:
  assumes "buildBinaryStreamObject context ev r headers = Inr d"
  shows "taskId d
           = metaOr (if truthy (getMeta (metadata r) ''originalfilename'')
                     then AList.delete ''originalfilename'' (metadata r) else metadata r)
               ''TASK_ID_METADATA_PROPERTY'' (invocationId context)"
    and "objectId d = metaOr (metadata r) ''binarystreamobjectid'' (invocationId context)"
    and "copyMetadata
           (if truthy (getMeta (metadata r) ''originalfilename'')
            then AList.delete ''originalfilename'' (metadata r) else metadata r)
           (if truthy (getMeta (metadata r) ''originalfilename'')
            then AList.delete ''originalfilename'' (metadata r) else metadata r)
           (initialProperties (name r)
              (metaOr (metadata r) ''originalfilename'' (last (split CHR ''/'' (name r))))
              ev headers)
         = Inr (properties d)"
  using assms
  by (auto simp: buildBinaryStreamObject_def Let_def split: sum.splits if_splits)

lemma buildBinaryStreamObject_returns:
  assumes "''hasOwnProperty'' \<notin> fst ` set (metadata r)"
  shows "\<exists>d. buildBinaryStreamObject context ev r headers = Inr d"
proof -
  let ?md = "if truthy (getMeta (metadata r) ''originalfilename'')
             then AList.delete ''originalfilename'' (metadata r) else metadata r"
  have "fst ` set ?md \<subseteq> fst ` set (metadata r)"
    using dom_delete_subset [of "''originalfilename''" "metadata r"] by simp
  with assms have k: "''hasOwnProperty'' \<notin> fst ` set ?md" by blast
  have i: "map_of (initialProperties key fn ev headers) ''hasOwnProperty'' = None" for key fn
    by (simp add: map_of_initialProperties)
  from copyMetadata_returns [OF k i]
  obtain ps where "copyMetadata ?md ?md
      (initialProperties (name r)
         (metaOr (metadata r) ''originalfilename'' (last (split CHR ''/'' (name r))))
         ev headers) = Inr ps"
    by blast
  then show ?thesis
    by (simp add: buildBinaryStreamObject_def Let_def)
qed

text \<open>
  C3, as the code has it.  The task id is read under the property name
  \<open>TASK_ID_METADATA_PROPERTY\<close>, not under \<open>x-rdp-taskid\<close>.  When the metadata has no
  key of that name, the task id of the descriptor is the invocation id, whether or not
  \<open>x-rdp-taskid\<close> is there; when it has one with a non-empty value, the task id is
  that value.  A descriptor is built for every metadata without a key
  \<open>hasOwnProperty\<close>.
\<close>

theorem task_id_lookup:
  "(map_of (metadata r) ''TASK_ID_METADATA_PROPERTY'' = None
      \<longrightarrow> (\<forall>d. buildBinaryStreamObject context ev r headers = Inr d
             \<longrightarrow> taskId d = invocationId context))
   \<and> (\<forall>v. map_of (metadata r) ''TASK_ID_METADATA_PROPERTY'' = Some v \<and> v \<noteq> []
      \<longrightarrow> (\<forall>d. buildBinaryStreamObject context ev r headers = Inr d \<longrightarrow> taskId d = v))
   \<and> (''hasOwnProperty'' \<notin> fst ` set (metadata r)
      \<longrightarrow> (\<exists>d. buildBinaryStreamObject context ev r headers = Inr d))"
proof (intro conjI allI impI)
  fix d
  assume "map_of (metadata r) ''TASK_ID_METADATA_PROPERTY'' = None"
    and "buildBinaryStreamObject context ev r headers = Inr d"
  then show "taskId d = invocationId context"
    by (simp add: buildBinaryStreamObject_Inr(1) metaOr_def)
next
  fix v d
  assume "map_of (metadata r) ''TASK_ID_METADATA_PROPERTY'' = Some v \<and> v \<noteq> []"
    and "buildBinaryStreamObject context ev r headers = Inr d"
  then show "taskId d = v"
    by (simp add: buildBinaryStreamObject_Inr(1) metaOr_def)
next
  assume "''hasOwnProperty'' \<notin> fst ` set (metadata r)"
  then show "\<exists>d. buildBinaryStreamObject context ev r headers = Inr d"
    by (rule buildBinaryStreamObject_returns)
qed

lemma sample_descriptors:
  "buildBinaryStreamObject sampleContext sampleEvent
     \<lparr>name = ''photo.tiff'', metadata = [(''x-rdp-taskid'', ''T-9'')]\<rparr> []
   = Inr \<lparr>taskId = ''inv-1'', objectId = ''inv-1'', objectType = ''binarystreamobject'',
          properties =
            [(''objectKey'', Str ''photo.tiff''), (''originalFileName'', Str ''photo.tiff''),
             (''fullObjectPath'', Str ''photo.tiff''), (''contentSize'', Num 2048),
             (''user'', Undefined), (''role'', Undefined)]\<rparr>"
  "buildBinaryStreamObject sampleContext sampleEvent
     \<lparr>name = ''photo.tiff'', metadata = [(''TASK_ID_METADATA_PROPERTY'', ''T-7'')]\<rparr> []
   = Inr \<lparr>taskId = ''T-7'', objectId = ''inv-1'', objectType = ''binarystreamobject'',
          properties =
            [(''objectKey'', Str ''photo.tiff''), (''originalFileName'', Str ''photo.tiff''),
             (''fullObjectPath'', Str ''photo.tiff''), (''contentSize'', Num 2048),
             (''user'', Undefined), (''role'', Undefined),
             (''TASK_ID_METADATA_PROPERTY'', Str ''T-7'')]\<rparr>"
  "buildBinaryStreamObject sampleContext sampleEvent
     \<lparr>name = ''photo.tiff'',
      metadata = [(''binarystreamobjectid'', ''B1''), (''originalfilename'', ''f.jpg'')]\<rparr> []
   = Inr \<lparr>taskId = ''inv-1'', objectId = ''B1'', objectType = ''binarystreamobject'',
          properties =
            [(''objectKey'', Str ''photo.tiff''), (''originalFileName'', Str ''f.jpg''),
             (''fullObjectPath'', Str ''photo.tiff''), (''contentSize'', Num 2048),
             (''user'', Undefined), (''role'', Undefined),
             (''binarystreamobjectid'', Str ''B1'')]\<rparr>"
  by (simp_all add: buildBinaryStreamObject_def Let_def metaOr_def getMeta_def getProp_def
      initialProperties_def hasOwnProperty_def setProp_def sampleContext_def sampleEvent_def
      TASK_ID_METADATA_PROPERTY_def)

theorem task_id_lookup_witness:
  "map_of [(TASK_ID_METADATA_PROPERTY, ''T-9'')] TASK_ID_METADATA_PROPERTY = Some ''T-9''
   \<and> map_of [(TASK_ID_METADATA_PROPERTY, ''T-9'')] ''TASK_ID_METADATA_PROPERTY'' = None
   \<and> map_sum id taskId (buildBinaryStreamObject sampleContext sampleEvent
        \<lparr>name = ''photo.tiff'', metadata = [(TASK_ID_METADATA_PROPERTY, ''T-9'')]\<rparr> [])
       = Inr ''inv-1''
   \<and> map_sum id taskId (buildBinaryStreamObject sampleContext sampleEvent
        \<lparr>name = ''photo.tiff'', metadata = [(''TASK_ID_METADATA_PROPERTY'', ''T-7'')]\<rparr> [])
       = Inr ''T-7''"
  using task_id_lookup [of "\<lparr>name = ''photo.tiff'', metadata = [(TASK_ID_METADATA_PROPERTY, ''T-9'')]\<rparr>"
          sampleContext sampleEvent "[]"]
        task_id_lookup [of "\<lparr>name = ''photo.tiff'', metadata = [(''TASK_ID_METADATA_PROPERTY'', ''T-7'')]\<rparr>"
          sampleContext sampleEvent "[]"]
  by (simp add: sample_descriptors TASK_ID_METADATA_PROPERTY_def)

text \<open>
  C3 as stated fails in its last part: a key named \<open>TASK_ID_METADATA_PROPERTY\<close> with
  the empty string as its value is present, a descriptor is built, and its task id is
  the invocation id.
\<close>

theorem task_id_empty_value:
  "map_of (metadata \<lparr>name = ''photo.tiff'', metadata = [(''TASK_ID_METADATA_PROPERTY'', '''')]\<rparr>)
       ''TASK_ID_METADATA_PROPERTY'' = Some ''''
   \<and> map_sum id taskId (buildBinaryStreamObject sampleContext sampleEvent
        \<lparr>name = ''photo.tiff'', metadata = [(''TASK_ID_METADATA_PROPERTY'', '''')]\<rparr> [])
       = Inr ''inv-1''"
  by (simp add: buildBinaryStreamObject_def Let_def metaOr_def getMeta_def getProp_def
      initialProperties_def hasOwnProperty_def setProp_def sampleContext_def sampleEvent_def)

text \<open>
  C7 at the metadata \<open>{my-x-rdp-note: n}\<close>.  The key does not start with \<open>x-rdp-\<close> and
  is not a property of the descriptor before the copy; it contains \<open>x-rdp\<close>, and the
  descriptor that is built does not have it.
\<close>

theorem key_containing_prefix_not_copied:
  "\<not> prefix RDP_PREFIX ''my-x-rdp-note''
   \<and> map_of (initialProperties ''photo.tiff'' ''photo.tiff'' sampleEvent []) ''my-x-rdp-note''
       = None
   \<and> buildBinaryStreamObject sampleContext sampleEvent
        \<lparr>name = ''photo.tiff'', metadata = [(''my-x-rdp-note'', ''n'')]\<rparr> []
       = Inr \<lparr>taskId = ''inv-1'', objectId = ''inv-1'', objectType = ''binarystreamobject'',
              properties =
                [(''objectKey'', Str ''photo.tiff''), (''originalFileName'', Str ''photo.tiff''),
                 (''fullObjectPath'', Str ''photo.tiff''), (''contentSize'', Num 2048),
                 (''user'', Undefined), (''role'', Undefined)]\<rparr>"
  by (simp add: RDP_PREFIX_def map_of_initialProperties buildBinaryStreamObject_def Let_def
      metaOr_def getMeta_def getProp_def initialProperties_def sampleContext_def
      sampleEvent_def)

text \<open>
  C9.  With \<open>binarystreamobjectid = B1\<close> and \<open>originalfilename = f.jpg\<close> in the
  metadata, the descriptor that is built has the id \<open>B1\<close>, its property
  \<open>originalFileName\<close> is \<open>f.jpg\<close>, and it has no property \<open>originalfilename\<close>.  A
  descriptor is built for every such metadata without a key \<open>hasOwnProperty\<close>.
\<close>

theorem descriptor_id_and_file_name:
  assumes "map_of (metadata r) ''binarystreamobjectid'' = Some ''B1''"
    and "map_of (metadata r) ''originalfilename'' = Some ''f.jpg''"
  shows "(\<forall>d. buildBinaryStreamObject context ev r headers = Inr d
            \<longrightarrow> objectId d = ''B1''
              \<and> map_of (properties d) ''originalFileName'' = Some (Str ''f.jpg'')
              \<and> map_of (properties d) ''originalfilename'' = None)
     \<and> (''hasOwnProperty'' \<notin> fst ` set (metadata r)
        \<longrightarrow> (\<exists>d. buildBinaryStreamObject context ev r headers = Inr d))"
proof (intro conjI allI impI)
  fix d
  assume d: "buildBinaryStreamObject context ev r headers = Inr d"
  have t: "truthy (getMeta (metadata r) ''originalfilename'')"
    using assms(2) by (simp add: getMeta_def)
  have fn: "metaOr (metadata r) ''originalfilename'' (last (split CHR ''/'' (name r))) = ''f.jpg''"
    using assms(2) by (simp add: metaOr_def)
  have gone: "''originalfilename'' \<notin> fst ` set (AList.delete ''originalfilename'' (metadata r))"
    by (rule delete_notin_dom)
  have ini: "map_of (initialProperties (name r) ''f.jpg'' ev headers) ''originalFileName''
              = Some (Str ''f.jpg'')"
    by (simp add: initialProperties_def Let_def setProp_def update_conv')
  have ini2: "map_of (initialProperties (name r) ''f.jpg'' ev headers) ''originalfilename'' = None"
    by (simp add: map_of_initialProperties)
  from buildBinaryStreamObject_Inr(3) [OF d] t fn
  have c: "copyMetadata (AList.delete ''originalfilename'' (metadata r))
             (AList.delete ''originalfilename'' (metadata r))
             (initialProperties (name r) ''f.jpg'' ev headers) = Inr (properties d)"
    by simp
  show "objectId d = ''B1''"
    using assms(1) by (simp add: buildBinaryStreamObject_Inr(2) [OF d] metaOr_def)
  show "map_of (properties d) ''originalFileName'' = Some (Str ''f.jpg'')"
    by (simp add: map_of_copyMetadata [OF c] ini)
  show "map_of (properties d) ''originalfilename'' = None"
    using gone by (simp add: map_of_copyMetadata [OF c] ini2)
next
  assume "''hasOwnProperty'' \<notin> fst ` set (metadata r)"
  then show "\<exists>d. buildBinaryStreamObject context ev r headers = Inr d"
    by (rule buildBinaryStreamObject_returns)
qed

theorem descriptor_id_and_file_name_witness:
  "map_sum id objectId (buildBinaryStreamObject sampleContext sampleEvent
       \<lparr>name = ''photo.tiff'',
        metadata = [(''binarystreamobjectid'', ''B1''), (''originalfilename'', ''f.jpg'')]\<rparr> [])
     = Inr ''B1''
   \<and> map_sum id (\<lambda>d. map_of (properties d) ''originalFileName'')
        (buildBinaryStreamObject sampleContext sampleEvent
       \<lparr>name = ''photo.tiff'',
        metadata = [(''binarystreamobjectid'', ''B1''), (''originalfilename'', ''f.jpg'')]\<rparr> [])
     = Inr (Some (Str ''f.jpg''))
   \<and> map_sum id (\<lambda>d. map_of (properties d) ''originalfilename'')
        (buildBinaryStreamObject sampleContext sampleEvent
       \<lparr>name = ''photo.tiff'',
        metadata = [(''binarystreamobjectid'', ''B1''), (''originalfilename'', ''f.jpg'')]\<rparr> [])
     = Inr None"
  using descriptor_id_and_file_name
    [of "\<lparr>name = ''photo.tiff'',
          metadata = [(''binarystreamobjectid'', ''B1''), (''originalfilename'', ''f.jpg'')]\<rparr>"
        sampleContext sampleEvent "[]"]
  by (simp add: sample_descriptors)

text \<open>
  A metadata with a key \<open>hasOwnProperty\<close> before another key without \<open>x-rdp\<close>: the
  first is copied, the test for the second calls the copied string, and no descriptor
  is built.
\<close>

lemma copy_loop_throws:
  "buildBinaryStreamObject sampleContext sampleEvent
     \<lparr>name = ''photo.tiff'',
      metadata = [(''binarystreamobjectid'', ''B1''), (''originalfilename'', ''f.jpg''),
                  (''hasOwnProperty'', ''x''), (''color'', ''red'')]\<rparr> []
   = Inl ''TypeError: hasOwnProperty is not a function''"
  by (simp add: buildBinaryStreamObject_def Let_def metaOr_def getMeta_def getProp_def
      initialProperties_def hasOwnProperty_def setProp_def sampleContext_def sampleEvent_def)

section \<open>The configuration of the handlers\<close>

lemma getEnvironmentConfiguration_missing:
  assumes "x \<in> set requiredVariables" and "envVar penv x = None"
  shows "\<exists>y \<in> set requiredVariables. getEnvironmentConfiguration penv = unableToLocate y"
  using assms
  by (auto simp: getEnvironmentConfiguration_def requiredVariables_def split: option.splits)

lemma getEnvironmentConfigurationVariant_missing:
  assumes "x \<in> set (tl requiredVariables)" and "envVar penv x = None"
  shows "\<exists>y \<in> set (tl requiredVariables).
           getEnvironmentConfigurationVariant penv = unableToLocate y"
  using assms
  by (auto simp: getEnvironmentConfigurationVariant_def requiredVariables_def
      split: option.splits)

text \<open>
  The object that \<open>getEnvironmentConfiguration\<close> returns has no property
  \<open>StorageConStr\<close>, so the handler of index.js never asks for the metadata.
\<close>

lemma getEnvironmentConfiguration_no_StorageConStr:
  "getEnvironmentConfiguration penv = (logged, Some config)
     \<Longrightarrow> getProp config ''StorageConStr'' = Undefined"
  by (auto simp: getEnvironmentConfiguration_def unableToLocate_def Let_def getProp_def
      split: option.splits)

lemma handler_no_network: "networkCalls (handler penv storage http parse context ev) = []"
proof (cases "getEnvironmentConfiguration penv")
  case (Pair logged envConfig)
  have l: "networkCalls logged = []"
    using Pair
    by (auto simp: getEnvironmentConfiguration_def unableToLocate_def Let_def
        split: option.splits)
  show ?thesis
  proof (cases envConfig)
    case None
    with Pair l show ?thesis by (simp add: handler_def fetchAndComplete_def Let_def networkCalls_append)
  next
    case (Some config)
    with Pair have "getProp config ''StorageConStr'' = Undefined"
      by (simp add: getEnvironmentConfiguration_no_StorageConStr)
    with Pair Some l show ?thesis by (simp add: handler_def fetchAndComplete_def Let_def networkCalls_append)
  qed
qed

text \<open>
  C2.  When the normalised metadata has no key \<open>x-rdp-tenantid\<close>, the callback logs
  the condition and does nothing else.  In the handler's code from the test of the
  configuration on, for a configuration with a connection string and a storage service
  that returns such metadata, the whole run is the request for the metadata, the
  \<open>context.done()\<close> of the last line, and that log entry: no HTTP request, and the only
  completion signal is the one without an error.  The handler itself, whose
  configuration never has a connection string, makes no network call at all.
\<close>

theorem tenant_missing:
  assumes "map_of (getBlobMetadata blobMetadataResult) ''x-rdp-tenantid'' = None"
  shows "onBlobMetadata http parse context eventGridEvent envConfig
           (Fetched (Some blobMetadataResult))
         = [LogError ''TenantId is not present in asset metadata'']
     \<and> (truthy (getProp config ''StorageConStr'')
         \<and> storage (getProp config ''StorageConStr'') containerName fileBlobName
             = Fetched (Some blobMetadataResult)
        \<longrightarrow> fetchAndComplete storage http parse context eventGridEvent
              containerName fileBlobName (Some config)
            = [GetBlobMetadata (getProp config ''StorageConStr'') containerName fileBlobName,
               Done None,
               LogError ''TenantId is not present in asset metadata''])
     \<and> networkCalls (handler penv storage http parse context eventGridEvent) = []"
  using assms
  by (simp add: fetchAndComplete_def onBlobMetadata_def Let_def getMeta_def handler_no_network)

theorem tenant_missing_witness:
  "map_of (getBlobMetadata \<lparr>name = ''photo.tiff'', metadata = [(''Color'', ''red'')]\<rparr>)
       ''x-rdp-tenantid'' = None
   \<and> truthy (getProp [(''StorageConStr'', Str ''UseDevelopmentStorage=true'')] ''StorageConStr'')
   \<and> fetchAndComplete
        (storageHolding \<lparr>name = ''photo.tiff'', metadata = [(''Color'', ''red'')]\<rparr>)
        (serverAnswering 200 ''ok'') parseNothing sampleContext sampleEvent
        ''media'' ''photo.tiff'' (Some [(''StorageConStr'', Str ''UseDevelopmentStorage=true'')])
       = [GetBlobMetadata (Str ''UseDevelopmentStorage=true'') ''media'' ''photo.tiff'',
          Done None,
          LogError ''TenantId is not present in asset metadata'']
   \<and> doneSignals (fetchAndComplete
        (storageHolding \<lparr>name = ''photo.tiff'', metadata = [(''Color'', ''red'')]\<rparr>)
        (serverAnswering 200 ''ok'') parseNothing sampleContext sampleEvent
        ''media'' ''photo.tiff'' (Some [(''StorageConStr'', Str ''UseDevelopmentStorage=true'')]))
       = [None]"
proof -
  let ?r = "\<lparr>name = ''photo.tiff'', metadata = [(''Color'', ''red'')]\<rparr>"
  let ?config = "[(''StorageConStr'', Str ''UseDevelopmentStorage=true'')]"
  have h: "map_of (getBlobMetadata ?r) ''x-rdp-tenantid'' = None"
    by (simp add: getBlobMetadata_def setProp_def normalizeKey_samples)
  have t: "truthy (getProp ?config ''StorageConStr'')"
    by (simp add: getProp_def)
  have g: "getProp ?config ''StorageConStr'' = Str ''UseDevelopmentStorage=true''"
    by (simp add: getProp_def)
  have s: "storageHolding ?r (getProp ?config ''StorageConStr'') ''media'' ''photo.tiff''
             = Fetched (Some ?r)"
    by (simp add: storageHolding_def)
  have "fetchAndComplete (storageHolding ?r) (serverAnswering 200 ''ok'') parseNothing
          sampleContext sampleEvent ''media'' ''photo.tiff'' (Some ?config)
        = [GetBlobMetadata (getProp ?config ''StorageConStr'') ''media'' ''photo.tiff'',
           Done None, LogError ''TenantId is not present in asset metadata'']"
    using tenant_missing [OF h, of "serverAnswering 200 ''ok''" parseNothing sampleContext
        sampleEvent "[]" ?config "storageHolding ?r" "''media''" "''photo.tiff''"] t s
    by blast
  with h t g show ?thesis by simp
qed

text \<open>
  C5, as the code has it.  Let one of the required variables be unset or empty.  The
  handler of index.js then makes no network call; when the subject has exactly 7
  segments it logs the error and calls \<open>context.done\<close> with it, before the
  \<open>context.done()\<close> of its last line.  The variant handler, which reads its
  configuration only after the metadata has arrived, makes no HTTP request.
\<close>

theorem missing_configuration:
  assumes "x \<in> set requiredVariables" and "envVar penv x = None"
  shows "networkCalls (handler penv storage http parse context ev) = []
     \<and> (length (split CHR ''/'' (subject ev)) = 7 \<longrightarrow>
          (\<exists>y \<in> set requiredVariables.
             handler penv storage http parse context ev
               = [LogError (''Unable to locate environment variable '' @ y),
                  Done (Some (''Unable to locate environment variable '' @ y)),
                  Done None]))
     \<and> (x \<noteq> ''StorageConStr'' \<longrightarrow>
          (\<forall>options body. HttpRequest options body
              \<notin> set (handlerVariant penv storage http parse context ev)))"
proof (intro conjI impI)
  show "networkCalls (handler penv storage http parse context ev) = []"
    by (rule handler_no_network)
next
  assume seven: "length (split CHR ''/'' (subject ev)) = 7"
  from getEnvironmentConfiguration_missing[OF assms]
  obtain y where y: "y \<in> set requiredVariables"
    "getEnvironmentConfiguration penv = unableToLocate y" by blast
  have "handler penv storage http parse context ev
               = [LogError (''Unable to locate environment variable '' @ y),
                  Done (Some (''Unable to locate environment variable '' @ y)),
                  Done None]"
    using seven y(2) by (simp add: handler_def fetchAndComplete_def Let_def unableToLocate_def)
  with y(1) show "\<exists>y \<in> set requiredVariables.
             handler penv storage http parse context ev
               = [LogError (''Unable to locate environment variable '' @ y),
                  Done (Some (''Unable to locate environment variable '' @ y)),
                  Done None]" by blast
next
  assume "x \<noteq> ''StorageConStr''"
  with assms(1) have "x \<in> set (tl requiredVariables)"
    by (auto simp: requiredVariables_def)
  from getEnvironmentConfigurationVariant_missing[OF this assms(2)]
  obtain y where "getEnvironmentConfigurationVariant penv = unableToLocate y" by blast
  then show "\<forall>options body. HttpRequest options body
              \<notin> set (handlerVariant penv storage http parse context ev)"
    by (auto simp: handlerVariant_def Let_def unableToLocate_def
        split: fetchOutcome.splits option.splits sum.splits)
qed

theorem missing_configuration_witness:
  "''ENV_RDP_HOST'' \<in> set requiredVariables
   \<and> envVar noEnvironment ''ENV_RDP_HOST'' = None
   \<and> length (split CHR ''/'' (subject sampleEvent)) = 7
   \<and> networkCalls (handler noEnvironment storageDown serverDown parseNothing
                      sampleContext sampleEvent) = []
   \<and> handler noEnvironment storageDown serverDown parseNothing sampleContext sampleEvent
       = [LogError ''Unable to locate environment variable StorageConStr'',
          Done (Some ''Unable to locate environment variable StorageConStr''),
          Done None]"
proof -
  have m: "''ENV_RDP_HOST'' \<in> set requiredVariables"
    by (simp add: requiredVariables_def)
  have e: "envVar noEnvironment ''ENV_RDP_HOST'' = None"
    by (simp add: envVar_def noEnvironment_def)
  have s: "length (split CHR ''/'' (subject sampleEvent)) = 7"
    by (simp add: sampleEvent_def)
  have h: "handler noEnvironment storageDown serverDown parseNothing sampleContext sampleEvent
       = [LogError ''Unable to locate environment variable StorageConStr'',
          Done (Some ''Unable to locate environment variable StorageConStr''),
          Done None]"
    using s
    by (simp add: handler_def fetchAndComplete_def Let_def getEnvironmentConfiguration_def
        envVar_def noEnvironment_def unableToLocate_def)
  from missing_configuration [OF m e, of storageDown serverDown parseNothing
      sampleContext sampleEvent]
  have "networkCalls (handler noEnvironment storageDown serverDown parseNothing
                      sampleContext sampleEvent) = []"
    by (rule conjunct1)
  with m e s h show ?thesis by simp
qed

text \<open>
  C5 as stated fails.  With no variable set, the handler of index.js logs nothing and
  completes without an error when the subject has 8 segments, and the variant handler
  asks the storage service for the metadata before it reads its configuration.
\<close>

theorem configuration_checked_late:
  "envVar noEnvironment ''StorageConStr'' = None
   \<and> handler noEnvironment storageDown serverDown parseNothing sampleContext nestedEvent
       = [Done None]
   \<and> handlerVariant noEnvironment
        (storageHolding \<lparr>name = ''photo.tiff'', metadata = [(''x_rdp_tenantid'', ''T1'')]\<rparr>)
        serverDown parseNothing sampleContext sampleEvent
       = [GetBlobMetadata (Str connectionString) ''rdp-media-assets-engg-az-qa5-rwtest''
            ''photo.tiff'',
          LogError ''Unable to locate environment variable ENV_RDP_HOST'',
          Done (Some ''Unable to locate environment variable ENV_RDP_HOST'')]"
proof -
  have "length (split CHR ''/'' (subject nestedEvent)) = 8"
    by (simp add: nestedEvent_def)
  then have a: "handler noEnvironment storageDown serverDown parseNothing sampleContext nestedEvent
       = [Done None]"
    by (simp add: handler_def Let_def)
  have u: "last (split CHR ''/'' (url (data sampleEvent))) = ''photo.tiff''"
    by (simp add: sampleEvent_def)
  have i: "\<not> includes_str ''/renditions/'' (subject sampleEvent)"
    by (simp add: sampleEvent_def)
  have b: "handlerVariant noEnvironment
        (storageHolding \<lparr>name = ''photo.tiff'', metadata = [(''x_rdp_tenantid'', ''T1'')]\<rparr>)
        serverDown parseNothing sampleContext sampleEvent
       = [GetBlobMetadata (Str connectionString) ''rdp-media-assets-engg-az-qa5-rwtest''
            ''photo.tiff'',
          LogError ''Unable to locate environment variable ENV_RDP_HOST'',
          Done (Some ''Unable to locate environment variable ENV_RDP_HOST'')]"
    using u i
    by (simp add: handlerVariant_def Let_def storageHolding_def
        getEnvironmentConfigurationVariant_def envVar_def noEnvironment_def unableToLocate_def)
  have "envVar noEnvironment ''StorageConStr'' = None"
    by (simp add: envVar_def noEnvironment_def)
  with a b show ?thesis by simp
qed

section \<open>The response of the API server\<close>

lemma statusIsSuccess_True:
  "statusIsSuccess j = Inr True \<longleftrightarrow>
     (\<exists>s. jprop (jprop (Some j) ''response'') ''status'' = Some (JString s)
          \<and> toLowerCase s = ''success'')"
proof
  assume "statusIsSuccess j = Inr True"
  then show "\<exists>s. jprop (jprop (Some j) ''response'') ''status'' = Some (JString s)
          \<and> toLowerCase s = ''success''"
    by (auto simp: statusIsSuccess_def Let_def split: if_splits option.splits json.splits)
next
  assume "\<exists>s. jprop (jprop (Some j) ''response'') ''status'' = Some (JString s)
          \<and> toLowerCase s = ''success''"
  then obtain s where s: "jprop (jprop (Some j) ''response'') ''status'' = Some (JString s)"
    "toLowerCase s = ''success''" by blast
  from s(2) have ne: "s \<noteq> []" by (auto simp: toLowerCase_def)
  from s(1) obtain kvs where r: "jprop (Some j) ''response'' = Some (JObject kvs)"
    by (cases "(jprop (Some j) ''response'', ''status'')" rule: jprop.cases) auto
  then obtain kvs' where j: "j = JObject kvs'"
    by (cases j) auto
  show "statusIsSuccess j = Inr True"
    using s r ne unfolding j by (simp add: statusIsSuccess_def Let_def)
qed

lemma doneSignals_complete: "doneSignals (complete b) = [None] \<longleftrightarrow> b"
  by (simp add: complete_def)

lemma onEnd_success:
  "doneSignals (onEnd parse statusCode responseBody) = [None] \<longleftrightarrow>
     statusCode = 200 \<and> responseBody \<noteq> []
     \<and> (\<exists>j s. parse responseBody = Some j
            \<and> jprop (jprop (Some j) ''response'') ''status'' = Some (JString s)
            \<and> toLowerCase s = ''success'')"
proof (cases "statusCode = 200 \<and> responseBody \<noteq> []")
  case False
  then show ?thesis by (auto simp: onEnd_def complete_def)
next
  case True
  show ?thesis
  proof (cases "parse responseBody")
    case None
    with True show ?thesis by (simp add: onEnd_def)
  next
    case (Some j)
    show ?thesis
    proof (cases "statusIsSuccess j")
      case (Inl e)
      have no: "\<not> (\<exists>s. jprop (jprop (Some j) ''response'') ''status'' = Some (JString s)
          \<and> toLowerCase s = ''success'')"
        unfolding statusIsSuccess_True[symmetric] using Inl by simp
      have "doneSignals (onEnd parse statusCode responseBody) \<noteq> [None]"
        using True Some Inl by (simp add: onEnd_def)
      with no Some show ?thesis by simp
    next
      case (Inr b)
      have b: "b \<longleftrightarrow> (\<exists>s. jprop (jprop (Some j) ''response'') ''status'' = Some (JString s)
          \<and> toLowerCase s = ''success'')"
        unfolding statusIsSuccess_True[symmetric] using Inr by simp
      have "doneSignals (onEnd parse statusCode responseBody) = [None] \<longleftrightarrow> b"
        using True Some Inr by (simp add: onEnd_def doneSignals_complete)
      with b True Some show ?thesis by simp
    qed
  qed
qed

lemma post_success_iff:
  "doneSignals (postBinaryStreamObject http parse envConfig headers bso) = [None] \<longleftrightarrow>
     (\<exists>chunks j s.
         http (getHttpRequestOptions envConfig headers) bso = Response 200 chunks End
       \<and> concat chunks \<noteq> []
       \<and> parse (concat chunks) = Some j
       \<and> jprop (jprop (Some j) ''response'') ''status'' = Some (JString s)
       \<and> toLowerCase s = ''success'')"
proof (cases "http (getHttpRequestOptions envConfig headers) bso")
  case (RequestError e)
  then show ?thesis by (simp add: postBinaryStreamObject_def Let_def)
next
  case (Response statusCode chunks ev)
  show ?thesis
  proof (cases ev)
    case (ResponseError e)
    with Response show ?thesis by (simp add: postBinaryStreamObject_def Let_def)
  next
    case End
    with Response show ?thesis
      by (simp add: postBinaryStreamObject_def Let_def onEnd_success)
  qed
qed

lemma toLowerCase_samples:
  "toLowerCase ''Success'' = ''success''"
  "toLowerCase ''failed'' = ''failed''"
  by (simp_all add: toLowerCase_def toLowerChar_def)

lemma statusIsSuccess_samples:
  "statusIsSuccess (statusResponse ''Success'') = Inr True"
  "statusIsSuccess (statusResponse ''failed'') = Inr False"
  by (simp_all add: statusIsSuccess_def statusResponse_def Let_def toLowerCase_samples)

lemma body_samples: "successBody \<noteq> []" "failedBody \<noteq> []"
  by (simp_all add: successBody_def failedBody_def)

text \<open>
  C4.  The submitter's one call of \<open>context.done\<close> is the one without an error if and
  only if the response ends with status code 200 and a body that parses to a value
  whose \<open>response.status\<close> is a string equal to \<open>success\<close> when lowercased.  For the
  body with status \<open>Success\<close> it calls \<open>context.done()\<close>, for the body with status
  \<open>failed\<close> it calls \<open>context.done\<close> with the error message.
\<close>

theorem submitter_success:
  "(doneSignals (postBinaryStreamObject http parse envConfig headers bso) = [None] \<longleftrightarrow>
     (\<exists>chunks j s.
         http (getHttpRequestOptions envConfig headers) bso = Response 200 chunks End
       \<and> concat chunks \<noteq> []
       \<and> parse (concat chunks) = Some j
       \<and> jprop (jprop (Some j) ''response'') ''status'' = Some (JString s)
       \<and> toLowerCase s = ''success''))
   \<and> (http (getHttpRequestOptions envConfig headers) bso = Response 200 chunks End
       \<and> concat chunks = successBody \<and> parse successBody = Some (statusResponse ''Success'')
      \<longrightarrow> doneSignals (postBinaryStreamObject http parse envConfig headers bso) = [None])
   \<and> (http (getHttpRequestOptions envConfig headers) bso = Response 200 chunks End
       \<and> concat chunks = failedBody \<and> parse failedBody = Some (statusResponse ''failed'')
      \<longrightarrow> doneSignals (postBinaryStreamObject http parse envConfig headers bso)
            = [Some restCallFailed])"
proof (intro conjI impI)
  show "doneSignals (postBinaryStreamObject http parse envConfig headers bso) = [None] \<longleftrightarrow>
     (\<exists>chunks j s.
         http (getHttpRequestOptions envConfig headers) bso = Response 200 chunks End
       \<and> concat chunks \<noteq> []
       \<and> parse (concat chunks) = Some j
       \<and> jprop (jprop (Some j) ''response'') ''status'' = Some (JString s)
       \<and> toLowerCase s = ''success'')"
    by (rule post_success_iff)
next
  assume h: "http (getHttpRequestOptions envConfig headers) bso = Response 200 chunks End
       \<and> concat chunks = successBody \<and> parse successBody = Some (statusResponse ''Success'')"
  note r = h[THEN conjunct1] and c = h[THEN conjunct2, THEN conjunct1]
    and p = h[THEN conjunct2, THEN conjunct2]
  have "onEnd parse 200 successBody = [Done None]"
    by (simp add: onEnd_def body_samples p statusIsSuccess_samples complete_def)
  then show "doneSignals (postBinaryStreamObject http parse envConfig headers bso) = [None]"
    by (simp add: postBinaryStreamObject_def Let_def r c)
next
  assume h: "http (getHttpRequestOptions envConfig headers) bso = Response 200 chunks End
       \<and> concat chunks = failedBody \<and> parse failedBody = Some (statusResponse ''failed'')"
  note r = h[THEN conjunct1] and c = h[THEN conjunct2, THEN conjunct1]
    and p = h[THEN conjunct2, THEN conjunct2]
  have "onEnd parse 200 failedBody = [LogError restCallFailed, Done (Some restCallFailed)]"
    by (simp add: onEnd_def body_samples p statusIsSuccess_samples complete_def)
  then show "doneSignals (postBinaryStreamObject http parse envConfig headers bso)
            = [Some restCallFailed]"
    by (simp add: postBinaryStreamObject_def Let_def r c)
qed

theorem submitter_success_witness:
  "serverAnswering 200 successBody (getHttpRequestOptions [] []) \<lparr>taskId = ''inv-1'',
       objectId = ''B1'', objectType = ''binarystreamobject'', properties = []\<rparr>
     = Response 200 [successBody] End
   \<and> parsesTo successBody (statusResponse ''Success'') successBody
       = Some (statusResponse ''Success'')
   \<and> doneSignals (postBinaryStreamObject (serverAnswering 200 successBody)
        (parsesTo successBody (statusResponse ''Success'')) [] []
        \<lparr>taskId = ''inv-1'', objectId = ''B1'', objectType = ''binarystreamobject'',
         properties = []\<rparr>) = [None]
   \<and> doneSignals (postBinaryStreamObject (serverAnswering 200 failedBody)
        (parsesTo failedBody (statusResponse ''failed'')) [] []
        \<lparr>taskId = ''inv-1'', objectId = ''B1'', objectType = ''binarystreamobject'',
         properties = []\<rparr>) = [Some restCallFailed]"
  using submitter_success [of "serverAnswering 200 successBody"
          "parsesTo successBody (statusResponse ''Success'')" "[]" "[]"
          "\<lparr>taskId = ''inv-1'', objectId = ''B1'', objectType = ''binarystreamobject'',
            properties = []\<rparr>" "[successBody]"]
        submitter_success [of "serverAnswering 200 failedBody"
          "parsesTo failedBody (statusResponse ''failed'')" "[]" "[]"
          "\<lparr>taskId = ''inv-1'', objectId = ''B1'', objectType = ''binarystreamobject'',
            properties = []\<rparr>" "[failedBody]"]
  by (simp add: serverAnswering_def parsesTo_def)

end
